theory Spec2Isabelle
  imports Main
begin

section \<open>Go strings and the \<^verbatim>\<open>unicode/utf8\<close> primitives the package relies on\<close>

text \<open>
  A Go \<^verbatim>\<open>string\<close> is an immutable sequence of bytes, not necessarily valid UTF-8.
  It is modelled as a \<^typ>\<open>string\<close> (a list of 8-bit \<^typ>\<open>char\<close>s); \<^term>\<open>byte c\<close> is
  the numeric value of a byte. A \<^verbatim>\<open>rune\<close> is a code point; every rune the package
  handles comes out of decoding a string, so it is never negative and is a \<^typ>\<open>nat\<close>.
\<close>

type_synonym rune = nat

abbreviation byte :: "char \<Rightarrow> nat" where
  "byte c \<equiv> of_char c"

definition RuneError :: rune where
  "RuneError = 0xFFFD"

definition MaxRune :: rune where
  "MaxRune = 0x10FFFF"

text \<open>
  The table \<^verbatim>\<open>first\<close> of \<^verbatim>\<open>unicode/utf8\<close> together with \<^verbatim>\<open>acceptRanges\<close>: for a lead
  byte, the length of the sequence and the range allowed for its second byte;
  \<^term>\<open>None\<close> for the bytes that cannot start a multi-byte sequence (\<^verbatim>\<open>xx\<close>).
\<close>

definition first :: "nat \<Rightarrow> (nat \<times> nat \<times> nat) option" where
  "first b =
    (if 0xC2 \<le> b \<and> b \<le> 0xDF then Some (2, 0x80, 0xBF)
     else if b = 0xE0 then Some (3, 0xA0, 0xBF)
     else if 0xE1 \<le> b \<and> b \<le> 0xEC then Some (3, 0x80, 0xBF)
     else if b = 0xED then Some (3, 0x80, 0x9F)
     else if 0xEE \<le> b \<and> b \<le> 0xEF then Some (3, 0x80, 0xBF)
     else if b = 0xF0 then Some (4, 0x90, 0xBF)
     else if 0xF1 \<le> b \<and> b \<le> 0xF3 then Some (4, 0x80, 0xBF)
     else if b = 0xF4 then Some (4, 0x80, 0x8F)
     else None)"

text \<open>
  \<^verbatim>\<open>utf8.DecodeRuneInString\<close>: the first rune of the string and its width in bytes;
  \<^verbatim>\<open>(RuneError, 0)\<close> on the empty string and \<^verbatim>\<open>(RuneError, 1)\<close> on an invalid sequence.
\<close>

fun DecodeRune :: "string \<Rightarrow> rune \<times> nat" where
  "DecodeRune [] = (RuneError, 0)"
| "DecodeRune (c0 # cs) =
    (let s0 = byte c0 in
     if s0 < 0x80 then (s0, 1)
     else case first s0 of
       None \<Rightarrow> (RuneError, 1)
     | Some (sz, lo, hi) \<Rightarrow>
         if Suc (length cs) < sz then (RuneError, 1)
         else let s1 = byte (cs ! 0) in
         if s1 < lo \<or> hi < s1 then (RuneError, 1)
         else if sz \<le> 2 then ((s0 mod 32) * 64 + s1 mod 64, 2)
         else let s2 = byte (cs ! 1) in
         if s2 < 0x80 \<or> 0xBF < s2 then (RuneError, 1)
         else if sz \<le> 3 then ((s0 mod 16) * 4096 + (s1 mod 64) * 64 + s2 mod 64, 3)
         else let s3 = byte (cs ! 2) in
         if s3 < 0x80 \<or> 0xBF < s3 then (RuneError, 1)
         else ((s0 mod 8) * 262144 + (s1 mod 64) * 4096 + (s2 mod 64) * 64 + s3 mod 64, 4))"

text \<open>
  \<^verbatim>\<open>for i, r := range text\<close>: the runes of a string in order, each invalid byte
  yielding \<^verbatim>\<open>RuneError\<close> with width 1. The loop state is the suffix \<^verbatim>\<open>text[i:]\<close>.
\<close>

fun runes :: "string \<Rightarrow> rune list" where
  "runes [] = []"
| "runes (c # cs) =
    fst (DecodeRune (c # cs)) # runes (drop (snd (DecodeRune (c # cs)) - 1) cs)"

text \<open>\<^verbatim>\<open>utf8.ValidString\<close> / \<^verbatim>\<open>utf8.Valid\<close>: every sequence of the string is well formed.\<close>

fun ValidString :: "string \<Rightarrow> bool" where
  "ValidString [] = True"
| "ValidString (c # cs) =
    (let s0 = byte c in
     if s0 < 0x80 then ValidString cs
     else case first s0 of
       None \<Rightarrow> False
     | Some (sz, lo, hi) \<Rightarrow>
         if Suc (length cs) < sz then False
         else if byte (cs ! 0) < lo \<or> hi < byte (cs ! 0) then False
         else if sz = 2 then ValidString (drop 1 cs)
         else if byte (cs ! 1) < 0x80 \<or> 0xBF < byte (cs ! 1) then False
         else if sz = 3 then ValidString (drop 2 cs)
         else if byte (cs ! 2) < 0x80 \<or> 0xBF < byte (cs ! 2) then False
         else ValidString (drop 3 cs))"

text \<open>\<^verbatim>\<open>utf8.RuneCountInString\<close>: the number of runes, an invalid byte counting as one.\<close>

definition RuneCountInString :: "string \<Rightarrow> nat" where
  "RuneCountInString s = length (runes s)"

text \<open>
  \<^verbatim>\<open>utf8.EncodeRune\<close> / \<^verbatim>\<open>utf8.AppendRune\<close> / \<^verbatim>\<open>strings.Builder.WriteRune\<close>: the UTF-8
  bytes of a rune; a surrogate or a value above \<^verbatim>\<open>MaxRune\<close> is written as \<^verbatim>\<open>RuneError\<close>.
\<close>

definition enc3 :: "rune \<Rightarrow> string" where
  "enc3 r = [char_of (0xE0 + r div 4096), char_of (0x80 + (r div 64) mod 64),
             char_of (0x80 + r mod 64)]"

definition EncodeRune :: "rune \<Rightarrow> string" where
  "EncodeRune r =
    (if r \<le> 0x7F then [char_of r]
     else if r \<le> 0x7FF then [char_of (0xC0 + r div 64), char_of (0x80 + r mod 64)]
     else if r > MaxRune \<or> (0xD800 \<le> r \<and> r \<le> 0xDFFF) then enc3 RuneError
     else if r \<le> 0xFFFF then enc3 r
     else [char_of (0xF0 + r div 262144), char_of (0x80 + (r div 4096) mod 64),
           char_of (0x80 + (r div 64) mod 64), char_of (0x80 + r mod 64)])"

section \<open>The Mojibake Reverser (\<^verbatim>\<open>fixes.go\<close>, \<^verbatim>\<open>encoding.go\<close>)\<close>

text \<open>\<^verbatim>\<open>countNonASCII\<close>: the number of runes above 127.\<close>

definition countNonASCII :: "string \<Rightarrow> nat" where
  "countNonASCII s = length (filter (\<lambda>r. r > 127) (runes s))"

text \<open>
  The loop of \<^verbatim>\<open>decodeMojibake\<close>, with the buffer \<^verbatim>\<open>rawBytes\<close> as accumulator: a rune
  below \<^verbatim>\<open>0x100\<close> appends the single byte \<^verbatim>\<open>byte(r)\<close>, any other rune appends its
  UTF-8 encoding (\<^verbatim>\<open>fixes.go\<close> through \<^verbatim>\<open>EncodeRune\<close> into a scratch buffer,
  \<^verbatim>\<open>encoding.go\<close> through \<^verbatim>\<open>AppendRune\<close>; the bytes appended are the same).
\<close>

fun rawBytes_loop :: "string \<Rightarrow> rune list \<Rightarrow> string" where
  "rawBytes_loop rawBytes [] = rawBytes"
| "rawBytes_loop rawBytes (r # rs) =
    (if r < 0x100 then rawBytes_loop (rawBytes @ [char_of r]) rs
     else rawBytes_loop (rawBytes @ EncodeRune r) rs)"

definition decodeMojibake :: "string \<Rightarrow> string" where
  "decodeMojibake text =
    (let rawBytes = rawBytes_loop [] (runes text) in
     if ValidString rawBytes then
       (let candidate = rawBytes in
        if countNonASCII candidate < countNonASCII text then candidate else text)
     else text)"

text \<open>
  \<^verbatim>\<open>looksLikeMojibake\<close> of \<^verbatim>\<open>fixes.go\<close>. The loop \<^verbatim>\<open>for i, r := range text\<close> is a recursion
  on the suffix \<^verbatim>\<open>text[i:] = c # cs\<close>: \<^verbatim>\<open>i+1 < len(text)\<close> says that \<^verbatim>\<open>cs\<close> is not empty and
  \<^verbatim>\<open>text[i+1]\<close> is the byte \<^verbatim>\<open>hd cs\<close> (the byte after the first byte of \<^verbatim>\<open>r\<close>, not the next
  rune). \<^verbatim>\<open>next\<close> is a byte compared with the code points of the listed characters.
\<close>

fun looksLikeMojibake :: "string \<Rightarrow> bool" where
  "looksLikeMojibake [] = False"
| "looksLikeMojibake (c # cs) =
    (let r = fst (DecodeRune (c # cs)) in
     if r = 0xC3 \<and> cs \<noteq> [] \<and>
        (let next = byte (hd cs) in
         (0x80 \<le> next \<and> next \<le> 0xBF) \<or>
         next = 0xA9 \<or> next = 0xAE \<or> next = 0x2122 \<or>
         next = 0xB0 \<or> next = 0xB1 \<or> next = 0xB2 \<or>
         next = 0xB3 \<or> next = 0xBC \<or> next = 0xBD)
     then True
     else if r = 0xE2 then True
     else looksLikeMojibake (drop (snd (DecodeRune (c # cs)) - 1) cs))"

text \<open>
  \<^verbatim>\<open>looksLikeMojibake\<close> of \<^verbatim>\<open>encoding.go\<close> scans \<^verbatim>\<open>[]rune(text)\<close> by rune index. Its rune
  literals each hold two or three code points (the file stores the UTF-8 bytes of the
  intended characters re-read in a Cyrillic code page), which is not a rune constant, so
  the signature is a parameter: the lead rune, the listed successors and the runes that
  flag on their own. \<^term>\<open>signature_latin1\<close> is the signature the comments of that file
  describe (U+00C3; the nine listed successors; U+00E2 and U+00C2).
\<close>

record signature =
  lead :: rune
  successors :: "rune list"
  starters :: "rune list"

fun looksLikeMojibake_loop :: "signature \<Rightarrow> rune list \<Rightarrow> bool" where
  "looksLikeMojibake_loop sg [] = False"
| "looksLikeMojibake_loop sg (r # rs) =
    (if r = lead sg \<and> rs \<noteq> [] \<and>
        (let next = hd rs in
         (0x80 \<le> next \<and> next \<le> 0xBF) \<or> next \<in> set (successors sg))
     then True
     else if r \<in> set (starters sg) then True
     else looksLikeMojibake_loop sg rs)"

definition looksLikeMojibake_runes :: "signature \<Rightarrow> string \<Rightarrow> bool" where
  "looksLikeMojibake_runes sg text = looksLikeMojibake_loop sg (runes text)"

definition signature_latin1 :: signature where
  "signature_latin1 =
    \<lparr>lead = 0xC3,
     successors = [0xA9, 0xAE, 0x2122, 0xB0, 0xB1, 0xB2, 0xB3, 0xBC, 0xBD],
     starters = [0xE2, 0xC2]\<rparr>"

text \<open>
  \<^verbatim>\<open>fixEncoding\<close> (the same text in both files), over the detector \<^verbatim>\<open>looksLike\<close> of the
  file it is compiled with.
\<close>

definition fixEncoding :: "(string \<Rightarrow> bool) \<Rightarrow> string \<Rightarrow> string" where
  "fixEncoding looksLike text =
    (if ValidString text \<and> \<not> looksLike text then text
     else let result = decodeMojibake text in
       if result \<noteq> text \<and> ValidString result then result else text)"

section \<open>Transform primitives (\<^verbatim>\<open>goftfy.go\<close>)\<close>

text \<open>
  \<^verbatim>\<open>strings.ReplaceAll(s, old, new)\<close>: leftmost non-overlapping occurrences of \<^verbatim>\<open>old\<close>,
  found by a scan over the bytes; with an empty \<^verbatim>\<open>old\<close>, \<^verbatim>\<open>new\<close> goes before every rune
  and at the end; nothing is done when \<^verbatim>\<open>old == new\<close>.
\<close>

fun replace_scan :: "string \<Rightarrow> string \<Rightarrow> string \<Rightarrow> string" where
  "replace_scan old new [] = []"
| "replace_scan old new (c # cs) =
    (if take (length old) (c # cs) = old
     then new @ replace_scan old new (drop (length old - 1) cs)
     else c # replace_scan old new cs)"

fun replace_empty :: "string \<Rightarrow> string \<Rightarrow> string" where
  "replace_empty new [] = new"
| "replace_empty new (c # cs) =
    new @ take (snd (DecodeRune (c # cs))) (c # cs)
        @ replace_empty new (drop (snd (DecodeRune (c # cs)) - 1) cs)"

definition ReplaceAll :: "string \<Rightarrow> string \<Rightarrow> string \<Rightarrow> string" where
  "ReplaceAll s old new =
    (if old = new then s
     else if old = [] then replace_empty new s
     else replace_scan old new s)"

text \<open>
  \<^verbatim>\<open>strings.NewReplacer(...).Replace\<close>: at each position the first pair, in argument
  order, whose old string starts there is replaced; no pair of this package has an empty
  old string.
\<close>

fun lookup_prefix :: "(string \<times> string) list \<Rightarrow> string \<Rightarrow> (string \<times> string) option" where
  "lookup_prefix [] s = None"
| "lookup_prefix ((old, new) # ps) s =
    (if old \<noteq> [] \<and> take (length old) s = old then Some (old, new) else lookup_prefix ps s)"

fun Replacer_Replace :: "(string \<times> string) list \<Rightarrow> string \<Rightarrow> string" where
  "Replacer_Replace ps [] = []"
| "Replacer_Replace ps (c # cs) =
    (case lookup_prefix ps (c # cs) of
       Some (old, new) \<Rightarrow> new @ Replacer_Replace ps (drop (length old - 1) cs)
     | None \<Rightarrow> c # Replacer_Replace ps cs)"

text \<open>\<^verbatim>\<open>fixLineBreaks\<close>.\<close>

definition fixLineBreaks :: "string \<Rightarrow> string" where
  "fixLineBreaks text =
    (let text = ReplaceAll text [CHR 0x0D, CHR 0x0A] [CHR 0x0A];
         text = ReplaceAll text [CHR 0x0D] [CHR 0x0A];
         text = ReplaceAll text [CHR 0xE2, CHR 0x80, CHR 0xA8] [CHR 0x0A];
         text = ReplaceAll text [CHR 0xE2, CHR 0x80, CHR 0xA9] [CHR 0x0A]
     in text)"

text \<open>\<^verbatim>\<open>fixSurrogates\<close>: every rune is written back, a surrogate as \<^verbatim>\<open>unicode.ReplacementChar\<close>.\<close>

fun fixSurrogates_loop :: "rune list \<Rightarrow> string" where
  "fixSurrogates_loop [] = []"
| "fixSurrogates_loop (r # rs) =
    (if 0xD800 \<le> r \<and> r \<le> 0xDFFF then EncodeRune 0xFFFD @ fixSurrogates_loop rs
     else EncodeRune r @ fixSurrogates_loop rs)"

definition fixSurrogates :: "string \<Rightarrow> string" where
  "fixSurrogates text = fixSurrogates_loop (runes text)"

text \<open>
  \<^verbatim>\<open>fixControlChars\<close>: tab, newline and carriage return are kept, the other C0 controls,
  DEL and the C1 controls are dropped.
\<close>

fun fixControlChars_loop :: "rune list \<Rightarrow> string" where
  "fixControlChars_loop [] = []"
| "fixControlChars_loop (r # rs) =
    (if r = 0x09 \<or> r = 0x0A \<or> r = 0x0D then EncodeRune r @ fixControlChars_loop rs
     else if r < 0x20 \<or> (0x7F \<le> r \<and> r \<le> 0x9F) then fixControlChars_loop rs
     else EncodeRune r @ fixControlChars_loop rs)"

definition fixControlChars :: "string \<Rightarrow> string" where
  "fixControlChars text = fixControlChars_loop (runes text)"

text \<open>\<^verbatim>\<open>fixCurlyQuotes\<close> and its replacer table.\<close>

definition curlyQuoteReplacer :: "(string \<times> string) list" where
  "curlyQuoteReplacer =
    [(EncodeRune 0x2018, [CHR 0x27]), (EncodeRune 0x2019, [CHR 0x27]),
     (EncodeRune 0x201A, [CHR 0x27]), (EncodeRune 0x201B, [CHR 0x27]),
     (EncodeRune 0x201C, [CHR 0x22]), (EncodeRune 0x201D, [CHR 0x22]),
     (EncodeRune 0x201E, [CHR 0x22]), (EncodeRune 0x201F, [CHR 0x22]),
     (EncodeRune 0x2039, ''<''), (EncodeRune 0x203A, ''>''),
     (EncodeRune 0x00AB, [CHR 0x22]), (EncodeRune 0x00BB, [CHR 0x22])]"

definition fixCurlyQuotes :: "string \<Rightarrow> string" where
  "fixCurlyQuotes text = Replacer_Replace curlyQuoteReplacer text"

text \<open>
  \<^verbatim>\<open>removeTerminalEscapes\<close>: every leftmost match of the expression
  \<^verbatim>\<open>\x1b\[[0-9;]*[a-zA-Z]|\x1b[^[\\]\<close> is deleted. \<^term>\<open>ansiEscape_match cs\<close> is the length
  of the match after an escape byte followed by \<^verbatim>\<open>cs\<close>, if there is one: an opening
  bracket, parameter bytes and one letter, or else one rune other than the bracket and
  the backslash.
\<close>

definition is_param :: "char \<Rightarrow> bool" where
  "is_param c = ((0x30 \<le> byte c \<and> byte c \<le> 0x39) \<or> c = CHR '';'')"

definition is_letter :: "char \<Rightarrow> bool" where
  "is_letter c = ((0x41 \<le> byte c \<and> byte c \<le> 0x5A) \<or> (0x61 \<le> byte c \<and> byte c \<le> 0x7A))"

fun ansiEscape_match :: "string \<Rightarrow> nat option" where
  "ansiEscape_match [] = None"
| "ansiEscape_match (d # ds) =
    (if d = CHR ''['' then
       (case dropWhile is_param ds of
          [] \<Rightarrow> None
        | e # es \<Rightarrow> if is_letter e then Some (length (takeWhile is_param ds) + 2) else None)
     else if d = CHR 0x5C then None
     else Some (snd (DecodeRune (d # ds))))"

fun removeTerminalEscapes :: "string \<Rightarrow> string" where
  "removeTerminalEscapes [] = []"
| "removeTerminalEscapes (c # cs) =
    (if c = CHR 0x1B then
       (case ansiEscape_match cs of
          Some n \<Rightarrow> removeTerminalEscapes (drop n cs)
        | None \<Rightarrow> c # removeTerminalEscapes cs)
     else c # removeTerminalEscapes cs)"

section \<open>Library functions outside the package\<close>

text \<open>
  \<^verbatim>\<open>html.UnescapeString\<close> (standard library) and \<^verbatim>\<open>norm.NFC.String\<close>, \<^verbatim>\<open>norm.NFD.String\<close>,
  \<^verbatim>\<open>norm.NFKC.String\<close>, \<^verbatim>\<open>norm.NFKD.String\<close> (\<^verbatim>\<open>golang.org/x/text\<close>) are not code of the
  package and rest on the tables of the HTML and Unicode standards. The pipeline takes
  them as a parameter; what a theorem needs of them is a stated hypothesis.
\<close>

record stdlib =
  UnescapeString :: "string \<Rightarrow> string"
  NFC :: "string \<Rightarrow> string"
  NFD :: "string \<Rightarrow> string"
  NFKC :: "string \<Rightarrow> string"
  NFKD :: "string \<Rightarrow> string"

text \<open>
  Text that is valid UTF-8 with every code point below U+0300 is already in form NFC
  (those code points are starters that no composition changes), and NFC returns it as
  it is.
\<close>

definition below_combining :: "string \<Rightarrow> bool" where
  "below_combining s = (ValidString s \<and> list_all (\<lambda>r. r < 0x300) (runes s))"

definition nfc_inert :: "stdlib \<Rightarrow> bool" where
  "nfc_inert L = (\<forall>s. below_combining s \<longrightarrow> NFC L s = s)"

text \<open>Both library functions return valid UTF-8 on valid UTF-8.\<close>

definition lib_keeps_valid :: "stdlib \<Rightarrow> bool" where
  "lib_keeps_valid L =
    (\<forall>s. ValidString s \<longrightarrow> ValidString (UnescapeString L s) \<and> ValidString (NFC L s))"

text \<open>
  An instance for evaluating the pipeline at concrete inputs. It is exact on text below
  U+0300 that holds no character reference other than the five that
  \<^verbatim>\<open>html.EscapeString\<close> writes; the concrete inputs of this theory are of that kind.
\<close>

definition stdlib_basic :: stdlib where
  "stdlib_basic =
    \<lparr>UnescapeString = Replacer_Replace
       [(''&amp;'', ''&''), (''&lt;'', ''<''), (''&gt;'', ''>''),
        (''&#34;'', [CHR 0x22]), (''&#39;'', [CHR 0x27])],
     NFC = (\<lambda>s. s), NFD = (\<lambda>s. s), NFKC = (\<lambda>s. s), NFKD = (\<lambda>s. s)\<rparr>"

text \<open>
  \<^verbatim>\<open>strings.TrimSpace\<close> and \<^verbatim>\<open>strings.ToUpper\<close> on the name of a normalization form, as
  they act on ASCII: the white space trimmed is tab, newline, vertical tab, form feed,
  carriage return and space; the letters \<^verbatim>\<open>a\<close> to \<^verbatim>\<open>z\<close> are raised.
\<close>

definition is_space :: "char \<Rightarrow> bool" where
  "is_space c = ((0x09 \<le> byte c \<and> byte c \<le> 0x0D) \<or> c = CHR '' '')"

definition TrimSpace :: "string \<Rightarrow> string" where
  "TrimSpace s = rev (dropWhile is_space (rev (dropWhile is_space s)))"

definition ToUpper :: "string \<Rightarrow> string" where
  "ToUpper s = map (\<lambda>c. if 0x61 \<le> byte c \<and> byte c \<le> 0x7A then char_of (byte c - 32) else c) s"

section \<open>The pipeline (\<^verbatim>\<open>goftfy.go\<close>)\<close>

record Options =
  FixEncoding :: bool
  FixHTMLEntities :: bool
  FixLineBreaks :: bool
  FixSurrogates :: bool
  FixControlChars :: bool
  FixCurlyQuotes :: bool
  NormalizationForm :: string
  RemoveTerminalEscapes :: bool

definition DefaultOptions :: Options where
  "DefaultOptions =
    \<lparr>FixEncoding = True, FixHTMLEntities = True, FixLineBreaks = True,
     FixSurrogates = True, FixControlChars = True, FixCurlyQuotes = False,
     NormalizationForm = ''NFC'', RemoveTerminalEscapes = False\<rparr>"

definition normalize :: "stdlib \<Rightarrow> string \<Rightarrow> string \<Rightarrow> string" where
  "normalize L text form =
    (let f = ToUpper (TrimSpace form) in
     if f = ''NFC'' then NFC L text
     else if f = ''NFD'' then NFD L text
     else if f = ''NFKC'' then NFKC L text
     else if f = ''NFKD'' then NFKD L text
     else text)"

text \<open>\<^verbatim>\<open>fixHTMLEntities\<close>: the library is called only when the text holds an ampersand.\<close>

definition fixHTMLEntities :: "stdlib \<Rightarrow> string \<Rightarrow> string" where
  "fixHTMLEntities L text =
    (if CHR ''&'' \<notin> set text then text else UnescapeString L text)"

text \<open>
  \<^verbatim>\<open>FixWithOptions\<close>: the enabled stages in their fixed order, the variable \<^verbatim>\<open>text\<close>
  reassigned by each. \<^verbatim>\<open>looksLike\<close> is the detector of the file \<^verbatim>\<open>fixEncoding\<close> comes from.
\<close>

definition FixWithOptions :: "stdlib \<Rightarrow> (string \<Rightarrow> bool) \<Rightarrow> string \<Rightarrow> Options \<Rightarrow> string" where
  "FixWithOptions L looksLike text opts =
    (let text = (if RemoveTerminalEscapes opts then removeTerminalEscapes text else text);
         text = (if FixSurrogates opts then fixSurrogates text else text);
         text = (if FixEncoding opts then fixEncoding looksLike text else text);
         text = (if FixHTMLEntities opts then fixHTMLEntities L text else text);
         text = (if FixLineBreaks opts then fixLineBreaks text else text);
         text = (if FixControlChars opts then fixControlChars text else text);
         text = (if FixCurlyQuotes opts then fixCurlyQuotes text else text);
         text = (if NormalizationForm opts \<noteq> [] then normalize L text (NormalizationForm opts)
                 else text)
     in text)"

definition Fix :: "stdlib \<Rightarrow> (string \<Rightarrow> bool) \<Rightarrow> string \<Rightarrow> string" where
  "Fix L looksLike text = FixWithOptions L looksLike text DefaultOptions"

definition IsValid :: "stdlib \<Rightarrow> (string \<Rightarrow> bool) \<Rightarrow> string \<Rightarrow> bool" where
  "IsValid L looksLike text = (Fix L looksLike text = text)"

text \<open>\<^verbatim>\<open>CountProblems\<close> of \<^verbatim>\<open>goftfy.go\<close>; a Go \<^verbatim>\<open>int\<close>, far from overflow on a difference of lengths.\<close>

definition CountProblems :: "stdlib \<Rightarrow> (string \<Rightarrow> bool) \<Rightarrow> string \<Rightarrow> int" where
  "CountProblems L looksLike text =
    (let fixed = Fix L looksLike text in
     if text = fixed then 0
     else let diff = int (RuneCountInString text) - int (RuneCountInString fixed) in
       if diff < 0 then 0 else diff)"

section \<open>The dictionary fixer \<^verbatim>\<open>QuickFix\<close>\<close>

text \<open>
  \<^verbatim>\<open>CommonMojibakePatterns\<close> of \<^verbatim>\<open>fixes.go\<close>, a Go map, as the list of its entries in the
  order of the source. The two entries for the dashes are left out: in the file the
  third character of their keys is an ASCII quotation mark, which ends the string
  literal, so they are not entries of a map literal.
\<close>

definition CommonMojibakePatterns :: "(string \<times> string) list" where
  "CommonMojibakePatterns =
    [(''S'' @ [CHR 0xC3, CHR 0x83, CHR 0xC2, CHR 0xA3] @ ''o'', ''S'' @ [CHR 0xC3, CHR 0xA3] @ ''o''),
     (''clich'' @ [CHR 0xC3, CHR 0x83, CHR 0xC2, CHR 0xA9], ''clich'' @ [CHR 0xC3, CHR 0xA9]),
     (''caf'' @ [CHR 0xC3, CHR 0x83, CHR 0xC2, CHR 0xA9], ''caf'' @ [CHR 0xC3, CHR 0xA9]),
     (''r'' @ [CHR 0xC3, CHR 0x83, CHR 0xC2, CHR 0xA9] @ ''sum'' @ [CHR 0xC3, CHR 0x83, CHR 0xC2, CHR 0xA9],
      ''r'' @ [CHR 0xC3, CHR 0xA9] @ ''sum'' @ [CHR 0xC3, CHR 0xA9]),
     (''na'' @ [CHR 0xC3, CHR 0x83, CHR 0xC2, CHR 0xAF] @ ''ve'', ''na'' @ [CHR 0xC3, CHR 0xAF] @ ''ve''),
     ([CHR 0xC3, CHR 0xA2, CHR 0xE2, CHR 0x82, CHR 0xAC, CHR 0xE2, CHR 0x84, CHR 0xA2],
      [CHR 0xE2, CHR 0x80, CHR 0x99]),
     ([CHR 0xC3, CHR 0xA2, CHR 0xE2, CHR 0x82, CHR 0xAC, CHR 0xC5, CHR 0x93],
      [CHR 0xE2, CHR 0x80, CHR 0x9C]),
     ([CHR 0xC3, CHR 0xA2, CHR 0xE2, CHR 0x82, CHR 0xAC], [CHR 0xE2, CHR 0x80, CHR 0x9D]),
     ([CHR 0xC3, CHR 0x82, CHR 0xC2, CHR 0xB7], [CHR 0xC2, CHR 0xB7]),
     ([CHR 0xC3, CHR 0x82, CHR 0xC2, CHR 0xA9], [CHR 0xC2, CHR 0xA9]),
     ([CHR 0xC3, CHR 0x82, CHR 0xC2, CHR 0xAE], [CHR 0xC2, CHR 0xAE]),
     ([CHR 0xC3, CHR 0xA2, CHR 0xE2, CHR 0x80, CHR 0x9E, CHR 0xC2, CHR 0xA2],
      [CHR 0xE2, CHR 0x84, CHR 0xA2])]"

text \<open>
  \<^verbatim>\<open>QuickFix\<close> of \<^verbatim>\<open>fixes.go\<close> ranges over the map. Go leaves the iteration order of a map
  unspecified and varies it from one loop to the next, so the order the entries come in
  is an argument: any list with the entries of the map, each once.
\<close>

definition QuickFix_in_order :: "(string \<times> string) list \<Rightarrow> string \<Rightarrow> string" where
  "QuickFix_in_order order text =
    foldl (\<lambda>text (broken, fixed). ReplaceAll text broken fixed) text order"

definition iteration_order :: "(string \<times> string) list \<Rightarrow> bool" where
  "iteration_order order =
    (distinct order \<and> set order = set CommonMojibakePatterns)"

text \<open>
  \<^verbatim>\<open>commonMojibakePatternsOrdered\<close> and \<^verbatim>\<open>QuickFix\<close> of \<^verbatim>\<open>encoding.go\<close>: the replacements are
  made in the order of a slice. The strings are the bytes that file holds.
\<close>

definition commonMojibakePatternsOrdered :: "(string \<times> string) list" where
  "commonMojibakePatternsOrdered =
    [(''S'' @ [CHR 0xD0, CHR 0x93, CHR 0xD1, CHR 0x93, CHR 0xD0, CHR 0x92, CHR 0xD0,
        CHR 0x88] @ ''o'',
      ''S'' @ [CHR 0xD0, CHR 0x93, CHR 0xD0, CHR 0x88] @ ''o''),
     (''caf'' @ [CHR 0xD0, CHR 0x93, CHR 0xD1, CHR 0x93, CHR 0xD0, CHR 0x92, CHR 0xC2,
        CHR 0xA9],
      ''caf'' @ [CHR 0xD0, CHR 0x93, CHR 0xC2, CHR 0xA9]),
     (''clich'' @ [CHR 0xD0, CHR 0x93, CHR 0xD1, CHR 0x93, CHR 0xD0, CHR 0x92, CHR 0xC2,
        CHR 0xA9],
      ''clich'' @ [CHR 0xD0, CHR 0x93, CHR 0xC2, CHR 0xA9]),
     (''r'' @ [CHR 0xD0, CHR 0x93, CHR 0xD1, CHR 0x93, CHR 0xD0, CHR 0x92, CHR 0xC2,
        CHR 0xA9] @ ''sum'' @ [CHR 0xD0, CHR 0x93, CHR 0xD1, CHR 0x93, CHR 0xD0, CHR 0x92,
        CHR 0xC2, CHR 0xA9],
      ''r'' @ [CHR 0xD0, CHR 0x93, CHR 0xC2, CHR 0xA9] @ ''sum'' @ [CHR 0xD0, CHR 0x93,
        CHR 0xC2, CHR 0xA9]),
     (''na'' @ [CHR 0xD0, CHR 0x93, CHR 0xD1, CHR 0x93, CHR 0xD0, CHR 0x92, CHR 0xD0,
        CHR 0x87] @ ''ve'',
      ''na'' @ [CHR 0xD0, CHR 0x93, CHR 0xD0, CHR 0x87] @ ''ve''),
     ([CHR 0xD0, CHR 0x93, CHR 0xD1, CHR 0x9E, CHR 0xD0, CHR 0xB2, CHR 0xE2, CHR 0x80,
        CHR 0x9A, CHR 0xC2, CHR 0xAC, CHR 0xD0, CHR 0xB2, CHR 0xE2, CHR 0x80, CHR 0x9E,
        CHR 0xD1, CHR 0x9E],
      [CHR 0xE2, CHR 0x80, CHR 0x99]),
     ([CHR 0xD0, CHR 0x93, CHR 0xD1, CHR 0x9E, CHR 0xD0, CHR 0xB2, CHR 0xE2, CHR 0x80,
        CHR 0x9A, CHR 0xC2, CHR 0xAC, CHR 0xD0, CHR 0x9B, CHR 0xD1, CHR 0x9A],
      [CHR 0xE2, CHR 0x80, CHR 0x98]),
     ([CHR 0xD0, CHR 0x93, CHR 0xD1, CHR 0x9E, CHR 0xD0, CHR 0xB2, CHR 0xE2, CHR 0x80,
        CHR 0x9A, CHR 0xC2, CHR 0xAC, CHR 0xD0, CHR 0x95, CHR 0xE2, CHR 0x80, CHR 0x9C],
      [CHR 0xE2, CHR 0x80, CHR 0x9C]),
     ([CHR 0xD0, CHR 0x93, CHR 0xD1, CHR 0x9E, CHR 0xD0, CHR 0xB2, CHR 0xE2, CHR 0x80,
        CHR 0x9A, CHR 0xC2, CHR 0xAC, CHR 0xD0, CHR 0xBF, CHR 0xD1, CHR 0x97, CHR 0xD0,
        CHR 0x85],
      [CHR 0xE2, CHR 0x80, CHR 0x9D]),
     ([CHR 0xD0, CHR 0x93, CHR 0xD1, CHR 0x9E, CHR 0xD0, CHR 0xB2, CHR 0xE2, CHR 0x80,
        CHR 0x9A, CHR 0xC2, CHR 0xAC, CHR 0xD0, CHR 0xB2, CHR 0xD0, CHR 0x82, CHR 0xD1,
        CHR 0x9C],
      [CHR 0xE2, CHR 0x80, CHR 0x94]),
     ([CHR 0xD0, CHR 0x93, CHR 0xD1, CHR 0x9E, CHR 0xD0, CHR 0xB2, CHR 0xE2, CHR 0x80,
        CHR 0x9A, CHR 0xC2, CHR 0xAC, CHR 0xD0, CHR 0xB2, CHR 0xD0, CHR 0x82, CHR 0xD1,
        CHR 0x9A],
      [CHR 0xE2, CHR 0x80, CHR 0x93]),
     ([CHR 0xD0, CHR 0x93, CHR 0xD1, CHR 0x9E, CHR 0xD0, CHR 0xB2, CHR 0xE2, CHR 0x80,
        CHR 0x9A, CHR 0xC2, CHR 0xAC, CHR 0xD0, CHR 0x92, CHR 0xC2, CHR 0xA6],
      [CHR 0xE2, CHR 0x80, CHR 0xA6]),
     ([CHR 0xD0, CHR 0x93, CHR 0xE2, CHR 0x80, CHR 0x9A, CHR 0xD0, CHR 0x92, CHR 0xC2,
        CHR 0xB7],
      [CHR 0xD0, CHR 0x92, CHR 0xC2, CHR 0xB7]),
     ([CHR 0xD0, CHR 0x93, CHR 0xE2, CHR 0x80, CHR 0x9A, CHR 0xD0, CHR 0x92, CHR 0xC2,
        CHR 0xA9],
      [CHR 0xD0, CHR 0x92, CHR 0xC2, CHR 0xA9]),
     ([CHR 0xD0, CHR 0x93, CHR 0xE2, CHR 0x80, CHR 0x9A, CHR 0xD0, CHR 0x92, CHR 0xC2,
        CHR 0xAE],
      [CHR 0xD0, CHR 0x92, CHR 0xC2, CHR 0xAE]),
     ([CHR 0xD0, CHR 0x93, CHR 0xD1, CHR 0x9E, CHR 0xD0, CHR 0xB2, CHR 0xD0, CHR 0x82,
        CHR 0xD1, CHR 0x9B, CHR 0xD0, CHR 0x92, CHR 0xD1, CHR 0x9E],
      [CHR 0xD0, CHR 0xB2, CHR 0xE2, CHR 0x80, CHR 0x9E, CHR 0xD1, CHR 0x9E])]"

definition QuickFix :: "string \<Rightarrow> string" where
  "QuickFix text =
    foldl (\<lambda>text (broken, fixed). ReplaceAll text broken fixed) text commonMojibakePatternsOrdered"

section \<open>Sample texts\<close>

text \<open>
  The corpus of the package's tests, as the bytes of the Go literals: \<^verbatim>\<open>S\<close>, U+00C3,
  U+00A3, \<^verbatim>\<open>o Paulo\<close>; \<^verbatim>\<open>caf\<close>, U+00C3, U+00A9; \<^verbatim>\<open>na\<close>, U+00C3, U+00AF, \<^verbatim>\<open>ve\<close>; and their
  repaired forms.
\<close>

definition text_sao :: string where
  "text_sao = ''S'' @ [CHR 0xC3, CHR 0x83, CHR 0xC2, CHR 0xA3] @ ''o Paulo''"

definition text_sao_fixed :: string where
  "text_sao_fixed = ''S'' @ [CHR 0xC3, CHR 0xA3] @ ''o Paulo''"

definition text_cafe :: string where
  "text_cafe = ''caf'' @ [CHR 0xC3, CHR 0x83, CHR 0xC2, CHR 0xA9]"

definition text_cafe_fixed :: string where
  "text_cafe_fixed = ''caf'' @ [CHR 0xC3, CHR 0xA9]"

definition text_naive :: string where
  "text_naive = ''na'' @ [CHR 0xC3, CHR 0x83, CHR 0xC2, CHR 0xAF] @ ''ve''"

definition text_naive_fixed :: string where
  "text_naive_fixed = ''na'' @ [CHR 0xC3, CHR 0xAF] @ ''ve''"

text \<open>
  The code points U+00C3 U+0083 U+00C2 U+00A3: the letter U+00E3 misread as Latin-1
  twice over. One reversal gives U+00C3 U+00A3, a second one gives U+00E3.
\<close>

definition text_twice :: string where
  "text_twice = [CHR 0xC3, CHR 0x83, CHR 0xC2, CHR 0x83, CHR 0xC3, CHR 0x82, CHR 0xC2, CHR 0xA3]"

definition text_once :: string where
  "text_once = [CHR 0xC3, CHR 0x83, CHR 0xC2, CHR 0xA3]"

text \<open>
  The code points U+00C4 U+00A3: the letter U+0123 misread as Latin-1. No detector of
  the package flags it.
\<close>

definition text_unflagged :: string where
  "text_unflagged = [CHR 0xC3, CHR 0x84, CHR 0xC2, CHR 0xA3]"

text \<open>The line separator U+2028, and the mojibake of U+2019 (U+00E2 U+20AC U+2122).\<close>

definition text_line_separator :: string where
  "text_line_separator = [CHR 0xE2, CHR 0x80, CHR 0xA8]"

definition text_quote :: string where
  "text_quote = [CHR 0xC3, CHR 0xA2, CHR 0xE2, CHR 0x82, CHR 0xAC, CHR 0xE2, CHR 0x84, CHR 0xA2]"

section \<open>The Reverser against its description\<close>

text \<open>
  The description of the Reverser, in its own words: each code point below 256
  contributes its scalar value as a single byte, each code point of 256 or more
  contributes its UTF-8 encoding; the reconstruction is accepted when it is valid UTF-8
  and holds strictly fewer non-ASCII code points than the text.
\<close>

definition spec_reconstruction :: "string \<Rightarrow> string" where
  "spec_reconstruction t =
    concat (map (\<lambda>r. if r < 256 then [char_of r] else EncodeRune r) (runes t))"

definition spec_accepts :: "string \<Rightarrow> bool" where
  "spec_accepts t =
    (ValidString (spec_reconstruction t) \<and>
     countNonASCII (spec_reconstruction t) < countNonASCII t)"

lemma rawBytes_loop_concat:
  "rawBytes_loop acc rs =
     acc @ concat (map (\<lambda>r. if r < 256 then [char_of r] else EncodeRune r) rs)"
  by (induction rs arbitrary: acc) simp_all

lemma rawBytes_loop_spec: "rawBytes_loop [] (runes t) = spec_reconstruction t"
  by (simp add: rawBytes_loop_concat spec_reconstruction_def)

lemma decodeMojibake_cases:
  "decodeMojibake t = (if spec_accepts t then spec_reconstruction t else t)"
  by (simp add: decodeMojibake_def spec_accepts_def rawBytes_loop_spec Let_def)

lemma spec_accepts_changes: "spec_accepts t \<Longrightarrow> spec_reconstruction t \<noteq> t"
  by (auto simp: spec_accepts_def)

text \<open>
  Claim C4. For every string \<open>t\<close> the Reverser \<^verbatim>\<open>decodeMojibake\<close> returns the byte
  reconstruction of \<open>t\<close> when that reconstruction is valid UTF-8 and has strictly fewer
  non-ASCII code points than \<open>t\<close>, and returns \<open>t\<close> unchanged in every other case; its
  result differs from \<open>t\<close> exactly when the reconstruction is accepted.
\<close>

theorem decodeMojibake_acceptance:
  "(spec_accepts t \<longrightarrow> decodeMojibake t = spec_reconstruction t) \<and>
   (\<not> spec_accepts t \<longrightarrow> decodeMojibake t = t) \<and>
   (decodeMojibake t \<noteq> t \<longleftrightarrow> spec_accepts t)"
  using spec_accepts_changes [of t] by (simp add: decodeMojibake_cases)

theorem decodeMojibake_acceptance_witness:
  "spec_accepts (''caf'' @ [CHR 0xC3, CHR 0x83, CHR 0xC2, CHR 0xA9]) \<and>
   decodeMojibake (''caf'' @ [CHR 0xC3, CHR 0x83, CHR 0xC2, CHR 0xA9]) = ''caf'' @ [CHR 0xC3, CHR 0xA9] \<and>
   \<not> spec_accepts ''cafe'' \<and> decodeMojibake ''cafe'' = ''cafe''"
proof -
  have a: "spec_accepts (''caf'' @ [CHR 0xC3, CHR 0x83, CHR 0xC2, CHR 0xA9])"
    by (simp add: spec_accepts_def spec_reconstruction_def countNonASCII_def first_def)
  have r: "spec_reconstruction (''caf'' @ [CHR 0xC3, CHR 0x83, CHR 0xC2, CHR 0xA9])
             = ''caf'' @ [CHR 0xC3, CHR 0xA9]"
    by (simp add: spec_reconstruction_def first_def char_of_eq_iff)
  have b: "\<not> spec_accepts ''cafe''"
    by (simp add: spec_accepts_def spec_reconstruction_def countNonASCII_def)
  from a r b
    decodeMojibake_acceptance [of "''caf'' @ [CHR 0xC3, CHR 0x83, CHR 0xC2, CHR 0xA9]"]
    decodeMojibake_acceptance [of "''cafe''"]
  show ?thesis by simp
qed

section \<open>Evaluation at concrete texts\<close>

lemma eq_char_of_iff: "(c = char_of (n::nat)) \<longleftrightarrow> (of_char c = take_bit 8 n)"
  using char_of_eq_iff [of n c] by auto

lemmas eval_defs = eq_char_of_iff char_of_eq_iff first_def countNonASCII_def
  decodeMojibake_def fixEncoding_def fixSurrogates_def fixControlChars_def fixLineBreaks_def
  ReplaceAll_def EncodeRune_def enc3_def RuneError_def MaxRune_def Let_def

lemmas text_defs = text_sao_def text_sao_fixed_def text_cafe_def text_cafe_fixed_def
  text_naive_def text_naive_fixed_def text_twice_def text_once_def text_unflagged_def
  text_line_separator_def text_quote_def

lemma Fix_stages:
  "Fix L d t =
     NFC L (fixControlChars (fixLineBreaks (fixHTMLEntities L (fixEncoding d (fixSurrogates t)))))"
  by (simp add: Fix_def FixWithOptions_def DefaultOptions_def normalize_def Let_def
      ToUpper_def TrimSpace_def is_space_def)

lemma nfc_inert_basic: "nfc_inert stdlib_basic"
  by (simp add: nfc_inert_def stdlib_basic_def)

lemma NFC_basic: "NFC stdlib_basic s = s"
  by (simp add: stdlib_basic_def)

section \<open>The gate and the progress of \<^verbatim>\<open>fixEncoding\<close>\<close>

lemma decodeMojibake_valid: "decodeMojibake t \<noteq> t \<Longrightarrow> ValidString (decodeMojibake t)"
  by (auto simp: decodeMojibake_cases spec_accepts_def split: if_splits)

lemma decodeMojibake_decreases:
  "decodeMojibake t \<noteq> t \<Longrightarrow> countNonASCII (decodeMojibake t) < countNonASCII t"
  by (auto simp: decodeMojibake_cases spec_accepts_def split: if_splits)

lemma fixEncoding_gate:
  "fixEncoding d t = (if ValidString t \<and> \<not> d t then t else decodeMojibake t)"
proof (cases "decodeMojibake t = t")
  case True
  then show ?thesis by (simp add: fixEncoding_def Let_def)
next
  case False
  then show ?thesis using decodeMojibake_valid [of t] by (simp add: fixEncoding_def Let_def)
qed

lemma fixEncoding_decreases:
  "fixEncoding d t \<noteq> t \<Longrightarrow> countNonASCII (fixEncoding d t) < countNonASCII t"
  using decodeMojibake_decreases [of t] by (auto simp: fixEncoding_gate split: if_splits)

lemma fixEncoding_rejected: "\<not> spec_accepts t \<Longrightarrow> fixEncoding d t = t"
  by (simp add: fixEncoding_gate decodeMojibake_cases)

lemma funpow_fixed: "f y = y \<Longrightarrow> (f ^^ k) y = y"
  by (induction k) simp_all

lemma measure_fixpoint:
  assumes dec: "\<And>x. f x \<noteq> x \<Longrightarrow> m (f x) < (m x :: nat)"
  shows "f ((f ^^ m x) x) = (f ^^ m x) x"
proof (induction "m x" arbitrary: x rule: less_induct)
  case less
  show ?case
  proof (cases "f x = x")
    case True
    then show ?thesis by (simp add: funpow_fixed)
  next
    case False
    then have lt: "m (f x) < m x" by (rule dec)
    let ?y = "(f ^^ m (f x)) (f x)"
    have fy: "f ?y = ?y" using less lt by blast
    obtain k where k: "m x = k + Suc (m (f x))"
      using lt by (metis add.commute less_iff_Suc_add add_Suc_right)
    have "(f ^^ m x) x = (f ^^ k) ((f ^^ Suc (m (f x))) x)"
      by (simp only: k funpow_add o_apply)
    also have "(f ^^ Suc (m (f x))) x = ?y" by (simp add: funpow_swap1)
    also have "(f ^^ k) ?y = ?y" using fy by (rule funpow_fixed)
    finally show ?thesis using fy by simp
  qed
qed

lemma unflagged_facts:
  "ValidString text_unflagged"
  "\<not> looksLikeMojibake text_unflagged"
  "\<not> looksLikeMojibake_runes signature_latin1 text_unflagged"
  "decodeMojibake text_unflagged = [CHR 0xC4, CHR 0xA3]"
  by (simp_all add: text_defs eval_defs looksLikeMojibake_runes_def signature_latin1_def)

lemma twice_facts:
  "fixEncoding looksLikeMojibake text_twice = text_once"
  "fixEncoding looksLikeMojibake text_once = [CHR 0xC3, CHR 0xA3]"
  "countNonASCII text_twice = 4"
  "countNonASCII text_once = 2"
  by (simp_all add: text_defs eval_defs)

text \<open>
  Claim C3, as amended. When the encoding-fix stage runs, the Detector gates the
  Reverser on valid input: for every valid UTF-8 string \<open>t\<close> that the Detector does not
  flag, \<^verbatim>\<open>fixEncoding\<close> returns \<open>t\<close> and the Reverser is not consulted; for every other
  \<open>t\<close> (flagged, or not valid UTF-8) \<^verbatim>\<open>fixEncoding\<close> returns the Reverser's
  accept-or-return-unchanged result. This holds for the detector of either file.
\<close>

theorem fixEncoding_detector_gates:
  "fixEncoding looksLike t =
     (if ValidString t \<and> \<not> looksLike t then t else decodeMojibake t)"
  by (rule fixEncoding_gate)

theorem fixEncoding_detector_gates_witness:
  "ValidString text_unflagged \<and> \<not> looksLikeMojibake text_unflagged \<and>
   fixEncoding looksLikeMojibake text_unflagged = text_unflagged \<and>
   looksLikeMojibake text_cafe \<and>
   fixEncoding looksLikeMojibake text_cafe = decodeMojibake text_cafe"
proof -
  have f: "looksLikeMojibake text_cafe" by (simp add: text_defs first_def)
  from unflagged_facts(1,2) f
    fixEncoding_detector_gates [of looksLikeMojibake text_unflagged]
    fixEncoding_detector_gates [of looksLikeMojibake text_cafe]
  show ?thesis by simp
qed

text \<open>
  The claim as stated fails at the valid text U+00C4 U+00A3: neither detector flags it,
  the Reverser alone would repair it to U+0123, and \<^verbatim>\<open>fixEncoding\<close> returns it unchanged.
\<close>

theorem fixEncoding_ungated_counterexample:
  "ValidString text_unflagged \<and>
   \<not> looksLikeMojibake text_unflagged \<and>
   \<not> looksLikeMojibake_runes signature_latin1 text_unflagged \<and>
   decodeMojibake text_unflagged = [CHR 0xC4, CHR 0xA3] \<and>
   fixEncoding looksLikeMojibake text_unflagged \<noteq> decodeMojibake text_unflagged \<and>
   fixEncoding (looksLikeMojibake_runes signature_latin1) text_unflagged
     \<noteq> decodeMojibake text_unflagged"
  using unflagged_facts by (simp add: fixEncoding_gate text_defs)

text \<open>
  Claim C7, as amended. An application of \<^verbatim>\<open>fixEncoding\<close> that changes the text
  strictly lowers its count of non-ASCII code points; its output is a fixed point
  whenever the reconstruction of that output is not accepted again; and in every case
  re-running it reaches a fixed point after at most \<^verbatim>\<open>countNonASCII(t)\<close> applications.
\<close>

theorem fixEncoding_settles:
  "(fixEncoding d t \<noteq> t \<longrightarrow> countNonASCII (fixEncoding d t) < countNonASCII t) \<and>
   (\<not> spec_accepts (fixEncoding d t) \<longrightarrow>
      fixEncoding d (fixEncoding d t) = fixEncoding d t) \<and>
   fixEncoding d ((fixEncoding d ^^ countNonASCII t) t) = (fixEncoding d ^^ countNonASCII t) t"
proof (intro conjI impI)
  assume "fixEncoding d t \<noteq> t"
  then show "countNonASCII (fixEncoding d t) < countNonASCII t"
    by (rule fixEncoding_decreases)
next
  assume "\<not> spec_accepts (fixEncoding d t)"
  then show "fixEncoding d (fixEncoding d t) = fixEncoding d t"
    by (rule fixEncoding_rejected)
next
  show "fixEncoding d ((fixEncoding d ^^ countNonASCII t) t) = (fixEncoding d ^^ countNonASCII t) t"
    by (rule measure_fixpoint) (rule fixEncoding_decreases)
qed

theorem fixEncoding_settles_witness:
  "fixEncoding looksLikeMojibake text_twice \<noteq> text_twice \<and>
   countNonASCII (fixEncoding looksLikeMojibake text_twice) < countNonASCII text_twice \<and>
   \<not> spec_accepts (fixEncoding looksLikeMojibake text_cafe) \<and>
   fixEncoding looksLikeMojibake (fixEncoding looksLikeMojibake text_cafe)
     = fixEncoding looksLikeMojibake text_cafe"
proof -
  have a: "fixEncoding looksLikeMojibake text_twice \<noteq> text_twice"
    unfolding twice_facts by (simp add: text_defs)
  have "fixEncoding looksLikeMojibake text_cafe = text_cafe_fixed"
    by (simp add: text_defs eval_defs)
  moreover have "\<not> spec_accepts text_cafe_fixed"
    by (simp add: text_defs spec_accepts_def spec_reconstruction_def first_def)
  ultimately have b: "\<not> spec_accepts (fixEncoding looksLikeMojibake text_cafe)" by simp
  from a b fixEncoding_settles [of looksLikeMojibake text_twice]
    fixEncoding_settles [of looksLikeMojibake text_cafe]
  show ?thesis by blast
qed

text \<open>
  The claim as stated fails at text corrupted twice: the first application returns
  U+00C3 U+00A3, and the second application changes that again, to U+00E3.
\<close>

theorem fixEncoding_idempotent_counterexample:
  "fixEncoding looksLikeMojibake (fixEncoding looksLikeMojibake text_twice)
     \<noteq> fixEncoding looksLikeMojibake text_twice"
  unfolding twice_facts by (simp add: text_defs)

section \<open>The default pipeline at the known corpus\<close>

lemma corpus_stages:
  "fixControlChars (fixLineBreaks (fixHTMLEntities L
      (fixEncoding looksLikeMojibake (fixSurrogates text_sao)))) = text_sao_fixed"
  "fixControlChars (fixLineBreaks (fixHTMLEntities L
      (fixEncoding looksLikeMojibake (fixSurrogates text_cafe)))) = text_cafe_fixed"
  "fixControlChars (fixLineBreaks (fixHTMLEntities L
      (fixEncoding looksLikeMojibake (fixSurrogates text_naive)))) = text_naive_fixed"
  by (simp_all add: text_defs eval_defs fixHTMLEntities_def)

lemma corpus_stages_runes:
  "fixControlChars (fixLineBreaks (fixHTMLEntities L
      (fixEncoding (looksLikeMojibake_runes signature_latin1) (fixSurrogates text_sao))))
    = text_sao_fixed"
  "fixControlChars (fixLineBreaks (fixHTMLEntities L
      (fixEncoding (looksLikeMojibake_runes signature_latin1) (fixSurrogates text_cafe))))
    = text_cafe_fixed"
  "fixControlChars (fixLineBreaks (fixHTMLEntities L
      (fixEncoding (looksLikeMojibake_runes signature_latin1) (fixSurrogates text_naive))))
    = text_naive_fixed"
  by (simp_all add: text_defs eval_defs fixHTMLEntities_def looksLikeMojibake_runes_def
      signature_latin1_def)

lemma corpus_below_combining:
  "below_combining text_sao_fixed"
  "below_combining text_cafe_fixed"
  "below_combining text_naive_fixed"
  by (simp_all add: below_combining_def text_defs first_def)

lemma Fix_corpus:
  assumes "nfc_inert L"
  shows "Fix L looksLikeMojibake text_sao = text_sao_fixed"
    and "Fix L looksLikeMojibake text_cafe = text_cafe_fixed"
    and "Fix L looksLikeMojibake text_naive = text_naive_fixed"
    and "Fix L (looksLikeMojibake_runes signature_latin1) text_sao = text_sao_fixed"
    and "Fix L (looksLikeMojibake_runes signature_latin1) text_cafe = text_cafe_fixed"
    and "Fix L (looksLikeMojibake_runes signature_latin1) text_naive = text_naive_fixed"
  using assms corpus_below_combining
  by (simp_all add: Fix_stages corpus_stages corpus_stages_runes nfc_inert_def)

text \<open>
  Claim C1. With the default configuration \<^verbatim>\<open>Fix\<close> repairs the known corpus end to end:
  \<^verbatim>\<open>Fix\<close> of the mojibake of "S\~ao Paulo", of "caf\'e" and of "na\"ive" is the repaired
  text, with the detector of \<^verbatim>\<open>fixes.go\<close> and with the rune-indexed detector of
  \<^verbatim>\<open>encoding.go\<close> under the signature its comments describe. The library's NFC is only
  required to return text below U+0300 as it is.
\<close>

theorem Fix_known_mojibake:
  assumes "nfc_inert L"
  shows "Fix L looksLikeMojibake text_sao = text_sao_fixed \<and>
         Fix L looksLikeMojibake text_cafe = text_cafe_fixed \<and>
         Fix L looksLikeMojibake text_naive = text_naive_fixed \<and>
         Fix L (looksLikeMojibake_runes signature_latin1) text_sao = text_sao_fixed \<and>
         Fix L (looksLikeMojibake_runes signature_latin1) text_cafe = text_cafe_fixed \<and>
         Fix L (looksLikeMojibake_runes signature_latin1) text_naive = text_naive_fixed"
  using Fix_corpus [OF assms] by simp

theorem Fix_known_mojibake_witness:
  "nfc_inert stdlib_basic \<and>
   Fix stdlib_basic looksLikeMojibake text_sao = text_sao_fixed \<and>
   Fix stdlib_basic looksLikeMojibake text_cafe = text_cafe_fixed \<and>
   Fix stdlib_basic looksLikeMojibake text_naive = text_naive_fixed"
  using nfc_inert_basic Fix_known_mojibake [OF nfc_inert_basic] by blast

section \<open>Diagnostics\<close>

text \<open>
  Claim C8. For every string \<open>t\<close>, \<^verbatim>\<open>CountProblems(t)\<close> (of \<^verbatim>\<open>goftfy.go\<close>) is at least 0
  and equals the difference between the code point count of \<open>t\<close> and that of the
  repaired text \<^verbatim>\<open>Fix(t)\<close>, clamped at zero; it is 0 whenever \<^verbatim>\<open>Fix(t) = t\<close>.
\<close>

theorem CountProblems_clamped:
  "0 \<le> CountProblems L d t \<and>
   CountProblems L d t
     = max 0 (int (RuneCountInString t) - int (RuneCountInString (Fix L d t))) \<and>
   (Fix L d t = t \<longrightarrow> CountProblems L d t = 0)"
  by (simp add: CountProblems_def Let_def)

theorem CountProblems_clamped_witness:
  "Fix stdlib_basic looksLikeMojibake ''abc'' = ''abc'' \<and>
   CountProblems stdlib_basic looksLikeMojibake ''abc'' = 0 \<and>
   CountProblems stdlib_basic looksLikeMojibake text_sao = 1"
proof -
  have a: "Fix stdlib_basic looksLikeMojibake ''abc'' = ''abc''"
    by (simp add: Fix_stages NFC_basic eval_defs fixHTMLEntities_def)
  have b: "RuneCountInString text_sao = 10" "RuneCountInString text_sao_fixed = 9"
    by (simp_all add: RuneCountInString_def text_defs first_def)
  have c: "Fix stdlib_basic looksLikeMojibake text_sao = text_sao_fixed"
    by (rule Fix_corpus [OF nfc_inert_basic])
  from a CountProblems_clamped [of stdlib_basic looksLikeMojibake "''abc''"]
  have "CountProblems stdlib_basic looksLikeMojibake ''abc'' = 0" by blast
  moreover from CountProblems_clamped [of stdlib_basic looksLikeMojibake text_sao]
  have "CountProblems stdlib_basic looksLikeMojibake text_sao = 1"
    by (simp add: b c)
  ultimately show ?thesis using a by simp
qed

lemma line_separator_fixed:
  assumes "nfc_inert L"
  shows "Fix L d text_line_separator = [CHR 0x0A]"
proof -
  have dm: "decodeMojibake text_line_separator = text_line_separator"
    by (simp add: text_defs eval_defs)
  have fe: "fixEncoding d (fixSurrogates text_line_separator) = text_line_separator"
    unfolding fixEncoding_gate using dm by (simp add: text_defs eval_defs)
  have "fixControlChars (fixLineBreaks (fixHTMLEntities L text_line_separator)) = [CHR 0x0A]"
    by (simp add: text_defs eval_defs fixHTMLEntities_def)
  moreover have "below_combining [CHR 0x0A]" by (simp add: below_combining_def)
  ultimately show ?thesis using assms fe by (simp add: Fix_stages nfc_inert_def)
qed

lemma line_separator_count:
  "RuneCountInString text_line_separator = 1" "RuneCountInString [CHR 0x0A] = 1"
  by (simp_all add: RuneCountInString_def text_defs first_def)

text \<open>
  Claim C10. There is a string \<open>t\<close> with \<^verbatim>\<open>Fix(t)\<close> different from \<open>t\<close>, hence
  \<^verbatim>\<open>IsValid(t) = false\<close>, and \<^verbatim>\<open>CountProblems(t) = 0\<close>: the line separator U+2028 is
  replaced by a newline, one code point for one, whatever the detector.
\<close>

theorem zero_count_not_valid:
  assumes "nfc_inert L"
  shows "Fix L d text_line_separator \<noteq> text_line_separator \<and>
         \<not> IsValid L d text_line_separator \<and>
         CountProblems L d text_line_separator = 0"
  using line_separator_count
  by (simp add: IsValid_def CountProblems_def Let_def line_separator_fixed [OF assms])
     (simp add: text_defs)

theorem zero_count_not_valid_witness:
  "nfc_inert stdlib_basic \<and>
   Fix stdlib_basic looksLikeMojibake text_line_separator \<noteq> text_line_separator \<and>
   \<not> IsValid stdlib_basic looksLikeMojibake text_line_separator \<and>
   CountProblems stdlib_basic looksLikeMojibake text_line_separator = 0"
  using nfc_inert_basic zero_count_not_valid [OF nfc_inert_basic, of looksLikeMojibake]
  by blast

section \<open>The order of replacements in \<^verbatim>\<open>QuickFix\<close>\<close>

lemma distinct_patterns: "distinct CommonMojibakePatterns"
  by (simp add: CommonMojibakePatterns_def)

lemma iteration_orders:
  "iteration_order CommonMojibakePatterns" "iteration_order (rev CommonMojibakePatterns)"
  by (simp_all add: iteration_order_def distinct_patterns)

lemma QuickFix_quote:
  "QuickFix_in_order CommonMojibakePatterns text_quote = [CHR 0xE2, CHR 0x80, CHR 0x99]"
  "QuickFix_in_order (rev CommonMojibakePatterns) text_quote
     = [CHR 0xE2, CHR 0x80, CHR 0x9D, CHR 0xE2, CHR 0x84, CHR 0xA2]"
  by (simp_all add: QuickFix_in_order_def CommonMojibakePatterns_def ReplaceAll_def text_defs)

text \<open>
  Claim C9. \<^verbatim>\<open>QuickFix\<close> of \<^verbatim>\<open>fixes.go\<close> ranges over a map whose key for U+201D is a
  prefix of its key for U+2019. On the mojibake of U+2019 the order of the source
  gives U+2019, the reverse order gives U+201D followed by U+2122: two evaluations of
  \<^verbatim>\<open>QuickFix\<close> on the same text can differ. (\<^verbatim>\<open>QuickFix\<close> of \<^verbatim>\<open>encoding.go\<close> ranges over the
  slice \<^term>\<open>commonMojibakePatternsOrdered\<close> and is a function of the text alone.)
\<close>

theorem QuickFix_order_dependent:
  "iteration_order CommonMojibakePatterns \<and>
   iteration_order (rev CommonMojibakePatterns) \<and>
   QuickFix_in_order CommonMojibakePatterns text_quote = [CHR 0xE2, CHR 0x80, CHR 0x99] \<and>
   QuickFix_in_order (rev CommonMojibakePatterns) text_quote
     = [CHR 0xE2, CHR 0x80, CHR 0x9D, CHR 0xE2, CHR 0x84, CHR 0xA2] \<and>
   QuickFix_in_order CommonMojibakePatterns text_quote
     \<noteq> QuickFix_in_order (rev CommonMojibakePatterns) text_quote"
  by (simp add: iteration_orders QuickFix_quote)

end
